theory Spec2Isabelle
  imports Main "HOL-Library.Word"
begin

section \<open>JanetHelper: a privileged helper (src/JanetHelper/JanetHelper.c)\<close>

text \<open>
  The program is one C file. It is embedded as state-passing functions over a
  record \<open>world\<close> that holds everything the program writes (the log file, the
  system log, the diagnostic stream and the privileged calls it makes), reading
  its inputs from a record \<open>env\<close> (the credentials of the process, the clock,
  and the results the operating system gives to each call).
\<close>

subsection \<open>Machine types and constants\<close>

text \<open>
  \<open>uid_t\<close>, \<open>gid_t\<close> and \<open>mode_t\<close> are unsigned and taken 32 bits wide; a
  cast to one of them is \<open>word_of_int\<close>.
\<close>

type_synonym uid_t = "32 word"
type_synonym gid_t = "32 word"
type_synonym mode_t = "32 word"

text \<open>\<^verbatim>\<open>#define BUFFER_SIZE 4096\<close>, \<^verbatim>\<open>#define LOG_FILE "/var/log/JanetHelper.log"\<close>\<close>

definition BUFFER_SIZE :: nat where
  "BUFFER_SIZE = 4096"

definition LOG_FILE :: string where
  "LOG_FILE = ''/var/log/JanetHelper.log''"

text \<open>\<open>long\<close> is 64 bits wide (LP64), \<open>int\<close> 32 bits.\<close>

definition LONG_MAX :: int where
  "LONG_MAX = 2 ^ 63 - 1"

definition LONG_MIN :: int where
  "LONG_MIN = - (2 ^ 63)"

definition newline :: string where
  "newline = [CHR 0x0A]"

subsection \<open>The C library: number formatting and parsing\<close>

text \<open>
  The conversions of \<open>printf\<close> the program uses: \<open>%d\<close> (signed decimal) and
  \<open>%o\<close> (unsigned octal), and the two-digit, zero-padded fields of \<open>strftime\<close>.
\<close>

definition digit_char :: "nat \<Rightarrow> char" where
  "digit_char d = (if d < 10 then ''0123456789'' ! d else CHR ''?'')"

function digits :: "nat \<Rightarrow> nat \<Rightarrow> string" where
  "digits b n =
     (if b < 2 \<or> n < b then [digit_char n]
      else digits b (n div b) @ [digit_char (n mod b)])"
  by pat_completeness auto
termination
  by (relation "measure (\<lambda>(b, n). n)") auto

declare digits.simps [simp del]

definition fmt_d :: "int \<Rightarrow> string" where
  "fmt_d i = (if i < 0 then ''-'' @ digits 10 (nat (- i)) else digits 10 (nat i))"

definition fmt_o :: "mode_t \<Rightarrow> string" where
  "fmt_o m = digits 8 (unat m)"

definition fmt_02d :: "int \<Rightarrow> string" where
  "fmt_02d i = (if 0 \<le> i \<and> i < 10 then ''0'' @ fmt_d i else fmt_d i)"

text \<open>
  \<open>snprintf(log_buffer, BUFFER_SIZE, ...)\<close> keeps at most \<open>BUFFER_SIZE - 1\<close>
  characters of the formatted text.
\<close>

definition snprintf :: "nat \<Rightarrow> string \<Rightarrow> string" where
  "snprintf n s = take (n - 1) s"

text \<open>
  \<open>strtol(s, NULL, base)\<close> for a base up to 10: white space is skipped, a sign
  is read, then the longest run of digits of the base; no digit gives 0, and a
  value outside \<open>long\<close> is clamped. \<open>atoi(s)\<close> is \<open>(int) strtol(s, NULL, 10)\<close>.
\<close>

definition isspace :: "char \<Rightarrow> bool" where
  "isspace c = (c \<in> set [CHR '' '', CHR 0x09, CHR 0x0A, CHR 0x0B, CHR 0x0C, CHR 0x0D])"

definition digit_val :: "char \<Rightarrow> nat option" where
  "digit_val c = map_of (zip ''0123456789'' [0 ..< 10]) c"

fun accum :: "nat \<Rightarrow> nat \<Rightarrow> string \<Rightarrow> nat" where
  "accum b acc [] = acc"
| "accum b acc (c # cs) =
     (case digit_val c of
        None \<Rightarrow> acc
      | Some d \<Rightarrow> if d < b then accum b (acc * b + d) cs else acc)"

definition strtol :: "string \<Rightarrow> nat \<Rightarrow> int" where
  "strtol s base =
     (case dropWhile isspace s of
        [] \<Rightarrow> 0
      | c # cs \<Rightarrow>
          if c = CHR ''-'' then max LONG_MIN (- int (accum base 0 cs))
          else if c = CHR ''+'' then min LONG_MAX (int (accum base 0 cs))
          else min LONG_MAX (int (accum base 0 (c # cs))))"

definition atoi :: "string \<Rightarrow> int" where
  "atoi s = sint (word_of_int (strtol s 10) :: 32 word)"

subsection \<open>Time\<close>

text \<open>
  \<open>struct tm\<close> as \<open>localtime\<close> fills it: \<open>tm_year\<close> counts from 1900 and
  \<open>tm_mon\<close> from 0. \<open>strftime(time_str, 64, "%Y-%m-%d %H:%M:%S", t)\<close> is
  \<open>strftime_log\<close>: \<open>%Y\<close> prints the year in decimal, the other fields
  print two digits.
\<close>

record tm =
  tm_sec :: int
  tm_min :: int
  tm_hour :: int
  tm_mday :: int
  tm_mon :: int
  tm_year :: int

definition strftime_log :: "tm \<Rightarrow> string" where
  "strftime_log t =
     fmt_d (1900 + tm_year t) @ ''-'' @ fmt_02d (tm_mon t + 1) @ ''-'' @ fmt_02d (tm_mday t)
     @ '' '' @ fmt_02d (tm_hour t) @ '':'' @ fmt_02d (tm_min t) @ '':'' @ fmt_02d (tm_sec t)"

subsection \<open>The environment and the world\<close>

text \<open>
  A privileged call the program makes. \<open>System c\<close> is \<open>system(c)\<close> of the C
  library, which runs \<open>/bin/sh -c c\<close> in a child process.
\<close>

datatype syscall =
    Chmod string mode_t
  | Chown string uid_t gid_t
  | System string

text \<open>
  What the process reads. \<open>fopen_log n\<close> says whether
  \<open>fopen(LOG_FILE, "a")\<close> succeeds at the call of \<open>log_message\<close> made when the
  system log holds \<open>n\<close> messages, and \<open>localtime_now n\<close> is the local time
  then. \<open>sys_chmod\<close> and \<open>sys_chown\<close> give \<open>None\<close> for success (the call
  returns 0) and \<open>Some errno\<close> for failure (it returns -1); \<open>sys_system\<close>
  gives the value \<open>system\<close> returns.
\<close>

record env =
  geteuid :: uid_t
  getuid :: uid_t
  fopen_log :: "nat \<Rightarrow> bool"
  localtime_now :: "nat \<Rightarrow> tm"
  sys_chmod :: "string \<Rightarrow> mode_t \<Rightarrow> nat option"
  sys_chown :: "string \<Rightarrow> uid_t \<Rightarrow> gid_t \<Rightarrow> nat option"
  sys_system :: "string \<Rightarrow> int"
  strerror :: "nat \<Rightarrow> string"

text \<open>
  What the process writes: the records appended to the log file (one per
  \<open>fprintf\<close>), the messages given to \<open>syslog\<close>, the text printed on
  \<open>stderr\<close>, and the privileged calls made, each list in order.
\<close>

record world =
  log_file :: "string list"
  syslog :: "string list"
  stderr :: "string list"
  calls :: "syscall list"

subsection \<open>The functions of the program\<close>

definition log_message :: "env \<Rightarrow> string \<Rightarrow> world \<Rightarrow> world" where
  "log_message e message w =
     (let n = length (syslog w);
          w1 = (if fopen_log e n
                then w\<lparr>log_file := log_file w @
                        [''['' @ strftime_log (localtime_now e n) @ ''] '' @ message @ newline]\<rparr>
                else w)
      in w1\<lparr>syslog := syslog w1 @ [message]\<rparr>)"

definition is_authorized :: "uid_t \<Rightarrow> bool" where
  "is_authorized caller_uid = True"

definition execute_command :: "env \<Rightarrow> string \<Rightarrow> world \<Rightarrow> int \<times> world" where
  "execute_command e command w =
     (let w1 = log_message e (snprintf BUFFER_SIZE (''Executing command: '' @ command)) w;
          result = sys_system e command;
          w2 = w1\<lparr>calls := calls w1 @ [System command]\<rparr>;
          w3 = log_message e
                 (snprintf BUFFER_SIZE (''Command execution result: '' @ fmt_d result)) w2
      in (result, w3))"

definition modify_permissions :: "env \<Rightarrow> string \<Rightarrow> mode_t \<Rightarrow> world \<Rightarrow> int \<times> world" where
  "modify_permissions e path mode w =
     (let w1 = log_message e
                 (snprintf BUFFER_SIZE
                    (''Modifying permissions for '' @ path @ '' to '' @ fmt_o mode)) w;
          w2 = w1\<lparr>calls := calls w1 @ [Chmod path mode]\<rparr>
      in case sys_chmod e path mode of
           Some errno \<Rightarrow>
             (- 1, log_message e
                     (snprintf BUFFER_SIZE
                        (''Failed to modify permissions: '' @ strerror e errno)) w2)
         | None \<Rightarrow> (0, log_message e ''Permissions modified successfully'' w2))"

definition change_ownership ::
  "env \<Rightarrow> string \<Rightarrow> uid_t \<Rightarrow> gid_t \<Rightarrow> world \<Rightarrow> int \<times> world" where
  "change_ownership e path uid gid w =
     (let w1 = log_message e
                 (snprintf BUFFER_SIZE
                    (''Changing ownership of '' @ path @ '' to UID '' @ fmt_d (sint uid)
                     @ '', GID '' @ fmt_d (sint gid))) w;
          w2 = w1\<lparr>calls := calls w1 @ [Chown path uid gid]\<rparr>
      in case sys_chown e path uid gid of
           Some errno \<Rightarrow>
             (- 1, log_message e
                     (snprintf BUFFER_SIZE
                        (''Failed to change ownership: '' @ strerror e errno)) w2)
         | None \<Rightarrow> (0, log_message e ''Ownership changed successfully'' w2))"

text \<open>\<open>fprintf(stderr, ...)\<close>\<close>

definition fprintf_stderr :: "string \<Rightarrow> world \<Rightarrow> world" where
  "fprintf_stderr s w = w\<lparr>stderr := stderr w @ [s]\<rparr>"

text \<open>
  \<open>argv[0]\<close> as \<open>%s\<close> prints it: with \<open>argc = 0\<close> the pointer is null, which
  the C library prints as \<open>(null)\<close>.
\<close>

definition argv0 :: "string list \<Rightarrow> string" where
  "argv0 argv = (case argv of [] \<Rightarrow> ''(null)'' | a # _ \<Rightarrow> a)"

text \<open>
  \<open>main\<close>, with \<open>argc = length argv\<close>. Every \<open>argv ! i\<close> below stands under
  the test \<open>i < argc\<close> of the source. The result is the value \<open>main\<close> returns.
\<close>

definition main :: "env \<Rightarrow> string list \<Rightarrow> world \<Rightarrow> int \<times> world" where
  "main e argv w =
     (let argc = length argv in
      if geteuid e \<noteq> 0 then
        (1, fprintf_stderr (''Error: JanetHelper must be run as root'' @ newline)
              (log_message e ''Error: JanetHelper must be run as root'' w))
      else if \<not> is_authorized (getuid e) then
        (1, fprintf_stderr (''Error: Unauthorized caller'' @ newline)
              (log_message e ''Error: Unauthorized caller'' w))
      else if argc < 2 then
        (1, fprintf_stderr (''Usage: '' @ argv0 argv @ '' <command> [args...]'' @ newline)
              (log_message e ''Error: No command specified'' w))
      else
        let command = argv ! 1 in
        if command = ''exec'' then
          if argc < 3 then
            (1, fprintf_stderr (''Usage: '' @ argv0 argv @ '' exec <command>'' @ newline)
                  (log_message e ''Error: No command to execute specified'' w))
          else execute_command e (argv ! 2) w
        else if command = ''chmod'' then
          if argc < 4 then
            (1, fprintf_stderr (''Usage: '' @ argv0 argv @ '' chmod <mode> <path>'' @ newline)
                  (log_message e ''Error: Missing arguments for chmod'' w))
          else modify_permissions e (argv ! 3) (word_of_int (strtol (argv ! 2) 8)) w
        else if command = ''chown'' then
          if argc < 5 then
            (1, fprintf_stderr
                  (''Usage: '' @ argv0 argv @ '' chown <uid> <gid> <path>'' @ newline)
                  (log_message e ''Error: Missing arguments for chown'' w))
          else change_ownership e (argv ! 4)
                 (word_of_int (atoi (argv ! 2))) (word_of_int (atoi (argv ! 3))) w
        else
          (1, fprintf_stderr (''Error: Unknown command: '' @ command @ newline)
                (log_message e
                   (snprintf BUFFER_SIZE (''Error: Unknown command: '' @ command)) w)))"

subsection \<open>Test data\<close>

definition noon :: tm where
  "noon = \<lparr>tm_sec = 5, tm_min = 30, tm_hour = 12, tm_mday = 7, tm_mon = 2, tm_year = 124\<rparr>"

definition root_env :: env where
  "root_env = \<lparr>geteuid = 0, getuid = 501, fopen_log = (\<lambda>n. True),
     localtime_now = (\<lambda>n. noon), sys_chmod = (\<lambda>p m. None), sys_chown = (\<lambda>p u g. None),
     sys_system = (\<lambda>c. 0), strerror = (\<lambda>n. ''Operation not permitted'')\<rparr>"

definition w0 :: world where
  "w0 = \<lparr>log_file = [], syslog = [], stderr = [], calls = []\<rparr>"

text \<open>The same caller without root rights: the helper is not installed setuid.\<close>

definition nonroot_env :: env where
  "nonroot_env = root_env\<lparr>geteuid := 501\<rparr>"

text \<open>An operating system that refuses the change: \<open>EPERM\<close> is 1.\<close>

definition refusing_env :: env where
  "refusing_env = root_env\<lparr>sys_chmod := (\<lambda>p m. Some 1), sys_chown := (\<lambda>p u g. Some 1),
     sys_system := (\<lambda>c. 256)\<rparr>"

subsection \<open>Vocabulary of the properties\<close>

text \<open>
  The child process a call starts: the program and its argument vector.
  \<open>system(c)\<close> starts the shell, with the whole command line as the one
  argument after \<open>-c\<close>; \<open>chmod\<close> and \<open>chown\<close> start none.
\<close>

fun child_image :: "syscall \<Rightarrow> (string \<times> string list) option" where
  "child_image (System c) = Some (''/bin/sh'', [''sh'', ''-c'', c])"
| "child_image (Chmod p m) = None"
| "child_image (Chown p u g) = None"

text \<open>The value a call returns to the program in the environment \<open>e\<close>.\<close>

fun call_result :: "env \<Rightarrow> syscall \<Rightarrow> int" where
  "call_result e (Chmod p m) = (case sys_chmod e p m of None \<Rightarrow> 0 | Some errno \<Rightarrow> - 1)"
| "call_result e (Chown p u g) = (case sys_chown e p u g of None \<Rightarrow> 0 | Some errno \<Rightarrow> - 1)"
| "call_result e (System c) = sys_system e c"


text \<open>
  The layout \<open>YYYY-MM-DD HH:MM:SS\<close>: each letter of the pattern stands for one
  decimal digit, every other character for itself.
\<close>

definition is_digit :: "char \<Rightarrow> bool" where
  "is_digit c = (c \<in> set ''0123456789'')"

fun layout :: "string \<Rightarrow> string \<Rightarrow> bool" where
  "layout [] [] = True"
| "layout (p # ps) (c # cs) =
     ((if p \<in> set ''YMDHS'' then is_digit c else c = p) \<and> layout ps cs)"
| "layout [] (c # cs) = False"
| "layout (p # ps) [] = False"

definition timestamp_layout :: "string \<Rightarrow> bool" where
  "timestamp_layout ts = layout ''YYYY-MM-DD HH:MM:SS'' ts"




text \<open>
  \<open>last_logged e w w' m\<close>: between the worlds \<open>w\<close> and \<open>w'\<close> the last message
  given to \<open>log_message\<close> is \<open>m\<close>; it is the last one in the system log, and
  the last record of the log file when the file opened at that call.
\<close>

definition last_logged :: "env \<Rightarrow> world \<Rightarrow> world \<Rightarrow> string \<Rightarrow> bool" where
  "last_logged e w w' m \<longleftrightarrow>
     (\<exists>earlier. syslog w' = syslog w @ earlier @ [m]
        \<and> (fopen_log e (length (syslog w @ earlier)) \<longrightarrow>
             (\<exists>before. log_file w' = log_file w @ before @
                [''['' @ strftime_log (localtime_now e (length (syslog w @ earlier))) @ ''] ''
                 @ m @ newline])))"

text \<open>
  A record of the log file in the format \<open>[YYYY-MM-DD HH:MM:SS] <message>\<close>
  and a line feed: the bracket, the nineteen characters of the timestamp, the
  bracket and one space, then the message up to the final line feed.
\<close>

definition log_line :: "string \<Rightarrow> bool" where
  "log_line l \<longleftrightarrow>
     23 \<le> length l \<and> take 1 l = ''['' \<and> timestamp_layout (take 19 (drop 1 l))
   \<and> take 2 (drop 20 l) = ''] '' \<and> last l = CHR 0x0A"

text \<open>\<open>w'\<close> has the log file of \<open>w\<close> and, after it, records of that format only.\<close>

definition appends_lines :: "world \<Rightarrow> world \<Rightarrow> bool" where
  "appends_lines w w' \<longleftrightarrow> (\<exists>new. log_file w' = log_file w @ new \<and> list_all log_line new)"

section \<open>Properties\<close>

subsection \<open>What each function leaves unchanged\<close>

lemma syslog_log_message [simp]: "syslog (log_message e m w) = syslog w @ [m]"
  by (simp add: log_message_def Let_def)

lemma calls_log_message [simp]: "calls (log_message e m w) = calls w"
  by (simp add: log_message_def Let_def)

lemma stderr_log_message [simp]: "stderr (log_message e m w) = stderr w"
  by (simp add: log_message_def Let_def)

lemma log_file_log_message:
  "log_file (log_message e m w) =
     log_file w @
       (if fopen_log e (length (syslog w))
        then [''['' @ strftime_log (localtime_now e (length (syslog w))) @ ''] '' @ m @ newline]
        else [])"
  by (simp add: log_message_def Let_def)

lemma fprintf_stderr_simps [simp]:
  "calls (fprintf_stderr s w) = calls w"
  "syslog (fprintf_stderr s w) = syslog w"
  "log_file (fprintf_stderr s w) = log_file w"
  "stderr (fprintf_stderr s w) = stderr w @ [s]"
  by (simp_all add: fprintf_stderr_def)

lemma is_authorized_any: "is_authorized uid"
  by (simp add: is_authorized_def)

lemma execute_command_simps [simp]:
  "fst (execute_command e c w) = sys_system e c"
  "calls (snd (execute_command e c w)) = calls w @ [System c]"
  "stderr (snd (execute_command e c w)) = stderr w"
  "syslog (snd (execute_command e c w)) =
     syslog w @ [snprintf BUFFER_SIZE (''Executing command: '' @ c),
                 snprintf BUFFER_SIZE (''Command execution result: '' @ fmt_d (sys_system e c))]"
  by (simp_all add: execute_command_def Let_def)

lemma modify_permissions_simps [simp]:
  "fst (modify_permissions e p m w) = call_result e (Chmod p m)"
  "calls (snd (modify_permissions e p m w)) = calls w @ [Chmod p m]"
  "stderr (snd (modify_permissions e p m w)) = stderr w"
  by (simp_all add: modify_permissions_def Let_def split: option.split)

lemma change_ownership_simps [simp]:
  "fst (change_ownership e p u g w) = call_result e (Chown p u g)"
  "calls (snd (change_ownership e p u g w)) = calls w @ [Chown p u g]"
  "stderr (snd (change_ownership e p u g w)) = stderr w"
  by (simp_all add: change_ownership_def Let_def split: option.split)

subsection \<open>The authorization check\<close>

text \<open>
  C1 (the code does not do this). The claim: an identity that is not on the
  allow-list is denied for every request. In the code \<open>is_authorized\<close> returns
  \<open>true\<close> for every caller, so the branch of \<open>main\<close> that refuses an
  unauthorized caller is never taken. Here the caller with real uid 501 runs a
  command as root: the command reaches \<open>system\<close>, and nothing is refused.
\<close>

theorem unchecked_caller_runs_command:
  "getuid root_env = 501
   \<and> is_authorized (getuid root_env)
   \<and> calls (snd (main root_env [''JanetHelper'', ''exec'', ''id''] w0)) = [System ''id'']
   \<and> syslog (snd (main root_env [''JanetHelper'', ''exec'', ''id''] w0)) =
        [''Executing command: id'', ''Command execution result: 0'']
   \<and> fst (main root_env [''JanetHelper'', ''exec'', ''id''] w0) = 0"
  by code_simp

subsection \<open>The test for root\<close>

text \<open>
  C9. When the effective user id is not 0, \<open>main\<close> returns 1 whatever the
  arguments are; it makes no privileged call, gives the error to
  \<open>log_message\<close> (the system log always, the log file when it opens) and
  prints it on \<open>stderr\<close>.
\<close>

theorem not_root_refused:
  assumes "geteuid e \<noteq> 0"
  shows "fst (main e argv w) = 1
       \<and> calls (snd (main e argv w)) = calls w
       \<and> syslog (snd (main e argv w)) = syslog w @ [''Error: JanetHelper must be run as root'']
       \<and> stderr (snd (main e argv w)) =
           stderr w @ [''Error: JanetHelper must be run as root'' @ newline]
       \<and> log_file (snd (main e argv w)) =
           log_file w @
             (if fopen_log e (length (syslog w))
              then [''['' @ strftime_log (localtime_now e (length (syslog w)))
                    @ ''] Error: JanetHelper must be run as root'' @ newline]
              else [])"
  using assms by (simp add: main_def log_file_log_message)

theorem not_root_refused_witness:
  "geteuid nonroot_env \<noteq> 0
   \<and> fst (main nonroot_env [''JanetHelper'', ''exec'', ''id''] w0) = 1
   \<and> calls (snd (main nonroot_env [''JanetHelper'', ''exec'', ''id''] w0)) = []
   \<and> syslog (snd (main nonroot_env [''JanetHelper'', ''exec'', ''id''] w0)) =
        [''Error: JanetHelper must be run as root'']
   \<and> stderr (snd (main nonroot_env [''JanetHelper'', ''exec'', ''id''] w0)) =
        [''Error: JanetHelper must be run as root'' @ newline]"
proof -
  have h: "geteuid nonroot_env \<noteq> 0"
    by (simp add: nonroot_env_def root_env_def)
  from not_root_refused [OF h, of "[''JanetHelper'', ''exec'', ''id'']" w0] h
  show ?thesis by (simp add: w0_def)
qed

subsection \<open>The arguments of exec\<close>

text \<open>
  C10. An \<open>exec\<close> invocation uses \<open>argv[2]\<close> only: whatever follows it
  changes neither the value \<open>main\<close> returns nor anything the run writes or
  calls.
\<close>

theorem exec_extra_arguments_ignored:
  "main e (prog # ''exec'' # cmd # rest) w = main e [prog, ''exec'', cmd] w"
  by (simp add: main_def)

theorem exec_extra_arguments_ignored_witness:
  "main root_env [''JanetHelper'', ''exec'', ''id'', ''-u'', ''; reboot''] w0 =
   main root_env [''JanetHelper'', ''exec'', ''id''] w0"
  by (rule exec_extra_arguments_ignored)

subsection \<open>Commands given to exec\<close>

text \<open>
  C2 (as stated, false). The claim: a command that is not allow-listed is
  denied for every caller and no child process is started. The scenario of the
  specification, \<open>helper exec "rm -rf /"\<close>, run as root: the command is given
  to \<open>system\<close>, \<open>main\<close> returns what \<open>system\<close> returned, and the log
  holds no refusal.
\<close>

theorem rm_rf_not_denied:
  "calls (snd (main root_env [''helper'', ''exec'', ''rm -rf /''] w0)) = [System ''rm -rf /'']
   \<and> fst (main root_env [''helper'', ''exec'', ''rm -rf /''] w0) = 0
   \<and> syslog (snd (main root_env [''helper'', ''exec'', ''rm -rf /''] w0)) =
        [''Executing command: rm -rf /'', ''Command execution result: 0'']"
  by code_simp

text \<open>
  C2 (amended). The code has no list of commands: for every caller and every
  command string, an \<open>exec\<close> invocation run as root with a command argument
  gives the string to \<open>system\<close> (one child process) and returns its value;
  nothing is printed on \<open>stderr\<close>.
\<close>

theorem exec_runs_any_command:
  assumes "geteuid e = 0" and "2 < length argv" and "argv ! 1 = ''exec''"
  shows "calls (snd (main e argv w)) = calls w @ [System (argv ! 2)]
       \<and> fst (main e argv w) = sys_system e (argv ! 2)
       \<and> stderr (snd (main e argv w)) = stderr w"
  using assms by (simp add: main_def is_authorized_def)

theorem exec_runs_any_command_witness:
  "geteuid root_env = 0 \<and> 2 < length [''helper'', ''exec'', ''rm -rf /'']
   \<and> calls (snd (main root_env [''helper'', ''exec'', ''rm -rf /''] w0)) = [System ''rm -rf /'']
   \<and> fst (main root_env [''helper'', ''exec'', ''rm -rf /''] w0) = 0
   \<and> stderr (snd (main root_env [''helper'', ''exec'', ''rm -rf /''] w0)) = []"
proof -
  have h: "geteuid root_env = 0" by (simp add: root_env_def)
  from exec_runs_any_command [OF h, of "[''helper'', ''exec'', ''rm -rf /'']" w0] h
  show ?thesis by (simp add: w0_def root_env_def)
qed

text \<open>
  C3 (as stated, false). The claim: the dispatcher executes the requested
  program directly, with an argument vector, and never gives the command line
  to a shell. For the command line \<open>ls /tmp; id\<close> the one child process
  \<open>execute_command\<close> starts is the shell, with the whole line as its argument.
\<close>

theorem command_line_given_to_shell:
  "map child_image (calls (snd (execute_command root_env ''ls /tmp; id'' w0))) =
     [Some (''/bin/sh'', [''sh'', ''-c'', ''ls /tmp; id''])]"
  by code_simp

text \<open>
  C3 (amended). For every command line, \<open>execute_command\<close> makes one call,
  \<open>system\<close>, which starts the shell on the unchanged command line, and it
  returns the value of \<open>system\<close> unchanged.
\<close>

theorem execute_command_uses_system:
  "map child_image (calls (snd (execute_command e command w))) =
     map child_image (calls w) @ [Some (''/bin/sh'', [''sh'', ''-c'', command])]
   \<and> fst (execute_command e command w) = sys_system e command"
  by simp

theorem execute_command_uses_system_witness:
  "map child_image (calls (snd (execute_command refusing_env ''false'' w0))) =
     [Some (''/bin/sh'', [''sh'', ''-c'', ''false''])]
   \<and> fst (execute_command refusing_env ''false'' w0) = 256"
  using execute_command_uses_system [of refusing_env "''false''" w0]
  by (simp add: w0_def refusing_env_def)

subsection \<open>The arguments of chmod and chown\<close>

text \<open>
  C4 (as stated, false). The claim: a mode that is not octal, a negative uid
  or gid, or an empty path is a usage error. \<open>chmod rwx ""\<close> is dispatched as
  \<open>chmod("", 0)\<close>, and \<open>chown -5 x ""\<close> as \<open>chown("", 4294967291, 0)\<close>;
  neither prints a usage message.
\<close>

theorem malformed_arguments_dispatched:
  "calls (snd (main root_env [''helper'', ''chmod'', ''rwx'', []] w0)) = [Chmod [] 0]
   \<and> fst (main root_env [''helper'', ''chmod'', ''rwx'', []] w0) = 0
   \<and> stderr (snd (main root_env [''helper'', ''chmod'', ''rwx'', []] w0)) = []
   \<and> calls (snd (main root_env [''helper'', ''chown'', ''-5'', ''x'', []] w0)) =
        [Chown [] 4294967291 0]
   \<and> stderr (snd (main root_env [''helper'', ''chown'', ''-5'', ''x'', []] w0)) = []"
  by code_simp

text \<open>
  C4 (amended). Run as root, a \<open>chmod\<close> invocation with two arguments after
  the verb and a \<open>chown\<close> invocation with three are dispatched whatever the
  arguments are: the mode is \<open>strtol\<close> of its argument in base 8, uid and gid
  are \<open>atoi\<close> of theirs, the path is passed as it is. Only a missing argument
  is a usage error: \<open>main\<close> returns 1, prints the usage and calls nothing.
\<close>

theorem arguments_not_validated:
  assumes "geteuid e = 0"
  shows "calls (snd (main e (prog # ''chmod'' # m # p # rest) w)) =
           calls w @ [Chmod p (word_of_int (strtol m 8))]
       \<and> stderr (snd (main e (prog # ''chmod'' # m # p # rest) w)) = stderr w
       \<and> calls (snd (main e (prog # ''chown'' # u # g # p # rest) w)) =
           calls w @ [Chown p (word_of_int (atoi u)) (word_of_int (atoi g))]
       \<and> stderr (snd (main e (prog # ''chown'' # u # g # p # rest) w)) = stderr w
       \<and> (length args < 2 \<longrightarrow>
            fst (main e (prog # ''chmod'' # args) w) = 1
          \<and> calls (snd (main e (prog # ''chmod'' # args) w)) = calls w
          \<and> stderr (snd (main e (prog # ''chmod'' # args) w)) =
              stderr w @ [''Usage: '' @ prog @ '' chmod <mode> <path>'' @ newline])
       \<and> (length args < 3 \<longrightarrow>
            fst (main e (prog # ''chown'' # args) w) = 1
          \<and> calls (snd (main e (prog # ''chown'' # args) w)) = calls w
          \<and> stderr (snd (main e (prog # ''chown'' # args) w)) =
              stderr w @ [''Usage: '' @ prog @ '' chown <uid> <gid> <path>'' @ newline])"
  using assms by (simp add: main_def is_authorized_def argv0_def)

theorem arguments_not_validated_witness:
  "geteuid root_env = 0
   \<and> calls (snd (main root_env [''helper'', ''chmod'', ''0x1F'', [], ''extra''] w0)) =
       [Chmod [] 0]
   \<and> calls (snd (main root_env [''helper'', ''chown'', ''-1'', ''staff'', []] w0)) =
       [Chown [] 4294967295 0]
   \<and> fst (main root_env [''helper'', ''chmod'', ''644''] w0) = 1
   \<and> calls (snd (main root_env [''helper'', ''chmod'', ''644''] w0)) = []
   \<and> fst (main root_env [''helper'', ''chown'', ''0'', ''0''] w0) = 1
   \<and> calls (snd (main root_env [''helper'', ''chown'', ''0'', ''0''] w0)) = []"
proof -
  have h: "geteuid root_env = 0" by (simp add: root_env_def)
  have m: "(word_of_int (strtol ''0x1F'' 8) :: mode_t) = 0" by code_simp
  have u: "(word_of_int (atoi ''-1'') :: uid_t) = 4294967295" by code_simp
  have g: "(word_of_int (atoi ''staff'') :: gid_t) = 0" by code_simp
  from arguments_not_validated [OF h, where prog = "''helper''" and m = "''0x1F''" and p = "[]"
      and rest = "[''extra'']" and w = w0 and u = "''-1''" and g = "''staff''"
      and args = "[''644'']"]
    arguments_not_validated [OF h, where prog = "''helper''" and m = "''0x1F''" and p = "[]"
      and rest = "[]" and w = w0 and u = "''-1''" and g = "''staff''"
      and args = "[''0'', ''0'']"] h
  show ?thesis unfolding m u g by (simp add: w0_def)
qed

subsection \<open>The value main returns\<close>




subsection \<open>Failures are logged\<close>




lemma last_logged_stderr [simp]:
  "last_logged e w (fprintf_stderr s w') m = last_logged e w w' m"
  by (simp add: last_logged_def)









subsection \<open>The format of the log file\<close>













lemma appends_lines_frame [simp]:
  "appends_lines w (w1\<lparr>calls := cs\<rparr>) = appends_lines w w1"
  "appends_lines w (fprintf_stderr s w1) = appends_lines w w1"
  by (simp_all add: appends_lines_def)




end
